theory Spec2Isabelle
  imports Main
begin

section \<open>Python values\<close>

text \<open>
  The module \<^verbatim>\<open>pyvizio/_api/apps.py\<close> handles two kinds of Python data: the static catalog
  tables \<^verbatim>\<open>APP_HOME\<close> and \<^verbatim>\<open>APPS\<close>, and the parsed JSON response of the device
  (\<^verbatim>\<open>Dict[str, Any]\<close>). A parsed JSON document is \<^verbatim>\<open>None\<close>, a \<^verbatim>\<open>bool\<close>, an \<^verbatim>\<open>int\<close>,
  a \<^verbatim>\<open>str\<close>, a \<^verbatim>\<open>list\<close> or a \<^verbatim>\<open>dict\<close> with string keys. A dict is an association list in
  insertion order (the order decides which key a case-insensitive lookup finds first).
  JSON numbers with a fraction (Python \<^verbatim>\<open>float\<close>) are outside this model: the fields the
  module works on are documented as \<^verbatim>\<open>str\<close> and \<^verbatim>\<open>int\<close>.
\<close>

datatype pyval =
    PNone
  | PBool bool
  | PInt int
  | PStr string
  | PList "pyval list"
  | PDict "(string \<times> pyval) list"

text \<open>The exceptions the modelled code can raise.\<close>

datatype error = TypeError | KeyError | AttributeError

text \<open>
  Python's \<^verbatim>\<open>==\<close> on these values. \<^verbatim>\<open>bool\<close> is a subclass of \<^verbatim>\<open>int\<close>, so
  \<^verbatim>\<open>True == 1\<close> and \<^verbatim>\<open>False == 0\<close>; there is no other coercion (\<^verbatim>\<open>"3" == 3\<close> is
  \<^verbatim>\<open>False\<close>). Lists are equal elementwise; dicts are equal when they have the same number of
  keys and every key of the left one is a key of the right one with an equal value.
\<close>

fun py_eq :: "pyval \<Rightarrow> pyval \<Rightarrow> bool" where
  "py_eq PNone PNone = True"
| "py_eq (PBool a) (PBool b) = (a = b)"
| "py_eq (PBool a) (PInt n) = ((if a then 1 else 0) = n)"
| "py_eq (PInt m) (PBool b) = (m = (if b then 1 else 0))"
| "py_eq (PInt m) (PInt n) = (m = n)"
| "py_eq (PStr s) (PStr t) = (s = t)"
| "py_eq (PList xs) (PList ys) = list_all2 py_eq xs ys"
| "py_eq (PDict d) (PDict e) =
     (length d = length e \<and>
      list_all (\<lambda>(k, v). case map_of e k of None \<Rightarrow> False | Some w \<Rightarrow> py_eq v w) d)"
| "py_eq _ _ = False"

text \<open>Python's truth value testing, as \<^verbatim>\<open>if current_app_id:\<close> applies it.\<close>

fun truthy :: "pyval \<Rightarrow> bool" where
  "truthy PNone = False"
| "truthy (PBool b) = b"
| "truthy (PInt n) = (n \<noteq> 0)"
| "truthy (PStr s) = (s \<noteq> [])"
| "truthy (PList xs) = (xs \<noteq> [])"
| "truthy (PDict d) = (d \<noteq> [])"

text \<open>
  \<^verbatim>\<open>str.lower()\<close>. Strings are lists of 8-bit characters; every name of the catalog and every
  key of the wire format is ASCII, where \<^verbatim>\<open>lower\<close> maps \<^verbatim>\<open>A\<close>..\<^verbatim>\<open>Z\<close> to \<^verbatim>\<open>a\<close>..\<^verbatim>\<open>z\<close>
  and leaves every other character alone.
\<close>

definition lower_char :: "char \<Rightarrow> char" where
  "lower_char c =
     (case map_of (zip ''ABCDEFGHIJKLMNOPQRSTUVWXYZ'' ''abcdefghijklmnopqrstuvwxyz'') c of
        Some l \<Rightarrow> l
      | None \<Rightarrow> c)"

definition lower :: "string \<Rightarrow> string" where
  "lower s = map lower_char s"

text \<open>The subscript \<^verbatim>\<open>d[k]\<close> of a dict: \<^verbatim>\<open>KeyError\<close> when the key is missing.\<close>

definition getitem :: "('k \<times> 'v) list \<Rightarrow> 'k \<Rightarrow> error + 'v" where
  "getitem d k = (case map_of d k of None \<Rightarrow> Inl KeyError | Some v \<Rightarrow> Inr v)"

section \<open>Collaborators outside the file\<close>

text \<open>
  Modelled from the spec: the helper \<^verbatim>\<open>dict_get_case_insensitive\<close> of \<^verbatim>\<open>pyvizio.helpers\<close> is
  not part of the sources. The spec describes it as a "case-insensitive key match" that
  extracts a field of a string-keyed mapping and falls back to the given default
  (\<^verbatim>\<open>None\<close> when no default is passed). The model returns the value of the first key, in
  insertion order, that equals the wanted key after lowering both. The spec describes the
  helper on mappings only; on any other value the model raises \<^verbatim>\<open>AttributeError\<close>, as a
  traversal of the keys of a value that has none does.
\<close>

fun dict_get_case_insensitive :: "pyval \<Rightarrow> string \<Rightarrow> pyval \<Rightarrow> error + pyval" where
  "dict_get_case_insensitive (PDict in_dict) key default_return =
     Inr (case find (\<lambda>(k, v). lower k = lower key) in_dict of
            Some (k, v) \<Rightarrow> v
          | None \<Rightarrow> default_return)"
| "dict_get_case_insensitive _ key default_return = Inl AttributeError"

text \<open>
  Modelled from the spec: the constants \<^verbatim>\<open>ResponseKey.ITEM\<close> and \<^verbatim>\<open>ResponseKey.VALUE\<close> of
  \<^verbatim>\<open>pyvizio._api._protocol\<close> are not part of the sources. The spec names the fields
  "item" and "value", matched case-insensitively.
\<close>

definition ResponseKey_ITEM :: string where
  "ResponseKey_ITEM = ''item''"

definition ResponseKey_VALUE :: string where
  "ResponseKey_VALUE = ''value''"

section \<open>AppConfig\<close>

record AppConfig =
  APP_ID :: pyval
  NAME_SPACE :: pyval
  MESSAGE :: pyval

text \<open>\<^verbatim>\<open>AppConfig.__init__(self, APP_ID, NAME_SPACE, MESSAGE)\<close> with all three given.\<close>

definition AppConfig_init :: "pyval \<Rightarrow> pyval \<Rightarrow> pyval \<Rightarrow> AppConfig" where
  "AppConfig_init a n m = \<lparr>APP_ID = a, NAME_SPACE = n, MESSAGE = m\<rparr>"

text \<open>
  Keyword arguments. A call \<^verbatim>\<open>f(**kw)\<close> raises \<^verbatim>\<open>TypeError\<close> when \<^verbatim>\<open>kw\<close> has a key that
  is not the name of a parameter of \<^verbatim>\<open>f\<close>, and when a parameter without a default gets no
  value. Parameter names are matched exactly, letter case included.
\<close>

definition unexpected_kwargs :: "string list \<Rightarrow> (string \<times> pyval) list \<Rightarrow> bool" where
  "unexpected_kwargs params kw = list_ex (\<lambda>k. k \<notin> set params) (map fst kw)"

definition kwarg_default :: "(string \<times> pyval) list \<Rightarrow> string \<Rightarrow> pyval \<Rightarrow> pyval" where
  "kwarg_default kw p dflt = (case map_of kw p of None \<Rightarrow> dflt | Some v \<Rightarrow> v)"

definition kwarg_required :: "(string \<times> pyval) list \<Rightarrow> string \<Rightarrow> error + pyval" where
  "kwarg_required kw p = (case map_of kw p of None \<Rightarrow> Inl TypeError | Some v \<Rightarrow> Inr v)"

text \<open>
  \<^verbatim>\<open>AppConfig(**v)\<close>: every parameter of \<^verbatim>\<open>AppConfig.__init__\<close> has the default
  \<^verbatim>\<open>None\<close>. When \<^verbatim>\<open>v\<close> is not a mapping the call raises \<^verbatim>\<open>TypeError\<close> too.
\<close>

fun AppConfig_kwargs :: "pyval \<Rightarrow> error + AppConfig" where
  "AppConfig_kwargs (PDict kw) =
     (if unexpected_kwargs [''APP_ID'', ''NAME_SPACE'', ''MESSAGE''] kw then Inl TypeError
      else Inr (AppConfig_init (kwarg_default kw ''APP_ID'' PNone)
                               (kwarg_default kw ''NAME_SPACE'' PNone)
                               (kwarg_default kw ''MESSAGE'' PNone)))"
| "AppConfig_kwargs _ = Inl TypeError"

text \<open>
  \<^verbatim>\<open>__eq__\<close>: \<^verbatim>\<open>self is other or self.__dict__ == other.__dict__\<close>. The instance dict holds
  the three attributes in the order \<^verbatim>\<open>__init__\<close> assigns them. Object identity is not
  part of a value, so the outcome of \<^verbatim>\<open>self is other\<close> is the first argument.
\<close>

definition AppConfig_dict :: "AppConfig \<Rightarrow> (string \<times> pyval) list" where
  "AppConfig_dict c =
     [(''APP_ID'', APP_ID c), (''NAME_SPACE'', NAME_SPACE c), (''MESSAGE'', MESSAGE c)]"

definition AppConfig_eq :: "bool \<Rightarrow> AppConfig \<Rightarrow> AppConfig \<Rightarrow> bool" where
  "AppConfig_eq self_is_other self other =
     (self_is_other \<or> py_eq (PDict (AppConfig_dict self)) (PDict (AppConfig_dict other)))"

section \<open>GetCurrentAppConfigCommand\<close>

definition GetCurrentAppConfig_process_response :: "pyval \<Rightarrow> error + AppConfig" where
  "GetCurrentAppConfig_process_response json_obj =
     (case dict_get_case_insensitive json_obj ResponseKey_ITEM (PDict []) of
        Inl e \<Rightarrow> Inl e
      | Inr item \<Rightarrow>
          (case dict_get_case_insensitive item ResponseKey_VALUE PNone of
             Inl e \<Rightarrow> Inl e
           | Inr current_app_id \<Rightarrow>
               if truthy current_app_id then AppConfig_kwargs current_app_id
               else Inr (AppConfig_init PNone PNone PNone)))"

section \<open>The catalog\<close>

text \<open>
  An entry of \<^verbatim>\<open>APP_HOME\<close> or \<^verbatim>\<open>APPS\<close>. The key \<^verbatim>\<open>"id"\<close> is missing in the entry of
  \<^verbatim>\<open>APP_HOME\<close>. The value of \<^verbatim>\<open>"config"\<close> stays a dict: the code subscripts it and
  unpacks it into keyword arguments.
\<close>

record app_def =
  name :: string
  country :: "string list"
  id' :: "string option"
  config :: "(string \<times> pyval) list"

definition APP_HOME :: "app_def list" where
  \<open>APP_HOME =
    [
     \<lparr>name = ''SmartCast Home'', country = [''*''], id' = None,
      config = [(''NAME_SPACE'', PInt 4), (''APP_ID'', PStr ''1''),
                (''MESSAGE'', PStr ''http://127.0.0.1:12345/scfs/sctv/main.html'')]\<rparr>
    ]\<close>

definition APPS :: "app_def list" where
  \<open>APPS =
    [
     \<lparr>name = ''Prime Video'', country = [''*''], id' = Some ''33'',
      config = [(''NAME_SPACE'', PInt 2), (''APP_ID'', PStr ''4''), (''MESSAGE'', PNone)]\<rparr>,
     \<lparr>name = ''CBS All Access'', country = [''usa''], id' = Some ''9'',
      config = [(''NAME_SPACE'', PInt 2), (''APP_ID'', PStr ''37''), (''MESSAGE'', PNone)]\<rparr>,
     \<lparr>name = ''CBS News'', country = [''usa'', ''can''], id' = Some ''56'',
      config = [(''NAME_SPACE'', PInt 2), (''APP_ID'', PStr ''42''), (''MESSAGE'', PNone)]\<rparr>,
     \<lparr>name = ''Crackle'', country = [''usa''], id' = Some ''8'',
      config = [(''NAME_SPACE'', PInt 2), (''APP_ID'', PStr ''5''), (''MESSAGE'', PNone)]\<rparr>,
     \<lparr>name = ''Curiosity Stream'', country = [''usa'', ''can''], id' = Some ''37'',
      config = [(''NAME_SPACE'', PInt 2), (''APP_ID'', PStr ''12''), (''MESSAGE'', PNone)]\<rparr>,
     \<lparr>name = ''Fandango Now'', country = [''usa''], id' = Some ''24'',
      config = [(''NAME_SPACE'', PInt 2), (''APP_ID'', PStr ''7''), (''MESSAGE'', PNone)]\<rparr>,
     \<lparr>name = ''FilmRise'', country = [''usa''], id' = Some ''47'',
      config = [(''NAME_SPACE'', PInt 2), (''APP_ID'', PStr ''24''), (''MESSAGE'', PNone)]\<rparr>,
     \<lparr>name = ''Flixfling'', country = [''*''], id' = Some ''49'',
      config = [(''NAME_SPACE'', PInt 2), (''APP_ID'', PStr ''36''), (''MESSAGE'', PNone)]\<rparr>,
     \<lparr>name = ''Haystack TV'', country = [''usa'', ''can''], id' = Some ''35'',
      config = [(''NAME_SPACE'', PInt 0), (''APP_ID'', PStr ''898AF734''),
                (''MESSAGE'', PStr ''{"CAST_NAMESPACE":"urn:x-cast:com.google.cast.media","CAST_MESSAGE":{"type":"LOAD","media":{},"autoplay":true,"currentTime":0,"customData":{"platform":"sctv"}}}'')]\<rparr>,
     \<lparr>name = ''Hulu'', country = [''usa''], id' = Some ''19'',
      config = [(''NAME_SPACE'', PInt 2), (''APP_ID'', PStr ''3''), (''MESSAGE'', PNone)]\<rparr>,
     \<lparr>name = ''iHeartRadio'', country = [''usa''], id' = Some ''11'',
      config = [(''NAME_SPACE'', PInt 2), (''APP_ID'', PStr ''6''), (''MESSAGE'', PNone)]\<rparr>,
     \<lparr>name = ''NBC'', country = [''usa''], id' = Some ''43'',
      config = [(''NAME_SPACE'', PInt 2), (''APP_ID'', PStr ''10''), (''MESSAGE'', PNone)]\<rparr>,
     \<lparr>name = ''Netflix'', country = [''*''], id' = Some ''34'',
      config = [(''NAME_SPACE'', PInt 3), (''APP_ID'', PStr ''1''), (''MESSAGE'', PNone)]\<rparr>,
     \<lparr>name = ''Plex'', country = [''usa'', ''can''], id' = Some ''40'',
      config = [(''NAME_SPACE'', PInt 2), (''APP_ID'', PStr ''9''), (''MESSAGE'', PNone)]\<rparr>,
     \<lparr>name = ''Pluto TV'', country = [''usa''], id' = Some ''12'',
      config = [(''NAME_SPACE'', PInt 0), (''APP_ID'', PStr ''E6F74C01''),
                (''MESSAGE'', PStr ''{"CAST_NAMESPACE":"urn:x-cast:tv.pluto","CAST_MESSAGE":{"command":"initializePlayback","channel":"","episode":"","time":0}}'')]\<rparr>,
     \<lparr>name = ''RedBox'', country = [''usa''], id' = Some ''55'',
      config = [(''NAME_SPACE'', PInt 2), (''APP_ID'', PStr ''41''), (''MESSAGE'', PNone)]\<rparr>,
     \<lparr>name = ''TasteIt'', country = [''*''], id' = Some ''52'',
      config = [(''NAME_SPACE'', PInt 2), (''APP_ID'', PStr ''26''), (''MESSAGE'', PNone)]\<rparr>,
     \<lparr>name = ''Toon Goggles'', country = [''usa'', ''can''], id' = Some ''46'',
      config = [(''NAME_SPACE'', PInt 2), (''APP_ID'', PStr ''21''), (''MESSAGE'', PNone)]\<rparr>,
     \<lparr>name = ''Vudu'', country = [''usa''], id' = Some ''6'',
      config = [(''NAME_SPACE'', PInt 2), (''APP_ID'', PStr ''21''),
                (''MESSAGE'', PStr ''https://my.vudu.com/castReceiver/index.html?launch-source=app-icon'')]\<rparr>,
     \<lparr>name = ''XUMO'', country = [''usa''], id' = Some ''27'',
      config = [(''NAME_SPACE'', PInt 0), (''APP_ID'', PStr ''36E1EA1F''),
                (''MESSAGE'', PStr ''{"CAST_NAMESPACE":"urn:x-cast:com.google.cast.media","CAST_MESSAGE":{"type":"LOAD","media":{},"autoplay":true,"currentTime":0,"customData":{}}}'')]\<rparr>,
     \<lparr>name = ''YouTubeTV'', country = [''usa'', ''mexico''], id' = Some ''45'',
      config = [(''NAME_SPACE'', PInt 5), (''APP_ID'', PStr ''3''), (''MESSAGE'', PNone)]\<rparr>,
     \<lparr>name = ''YouTube'', country = [''*''], id' = Some ''44'',
      config = [(''NAME_SPACE'', PInt 5), (''APP_ID'', PStr ''1''), (''MESSAGE'', PNone)]\<rparr>,
     \<lparr>name = ''Baeble'', country = [''usa''], id' = Some ''39'',
      config = [(''NAME_SPACE'', PInt 2), (''APP_ID'', PStr ''11''), (''MESSAGE'', PNone)]\<rparr>,
     \<lparr>name = ''DAZN'', country = [''usa'', ''can''], id' = Some ''57'',
      config = [(''NAME_SPACE'', PInt 2), (''APP_ID'', PStr ''34''), (''MESSAGE'', PNone)]\<rparr>,
     \<lparr>name = ''FitFusion by Jillian Michaels'', country = [''usa'', ''can''], id' = Some ''54'',
      config = [(''NAME_SPACE'', PInt 2), (''APP_ID'', PStr ''39''), (''MESSAGE'', PNone)]\<rparr>,
     \<lparr>name = ''Newsy'', country = [''usa'', ''can''], id' = Some ''38'',
      config = [(''NAME_SPACE'', PInt 2), (''APP_ID'', PStr ''15''), (''MESSAGE'', PNone)]\<rparr>,
     \<lparr>name = ''Cocoro TV'', country = [''usa'', ''can''], id' = Some ''63'',
      config = [(''NAME_SPACE'', PInt 2), (''APP_ID'', PStr ''55''), (''MESSAGE'', PNone)]\<rparr>,
     \<lparr>name = ''ConTV'', country = [''usa'', ''can''], id' = Some ''41'',
      config = [(''NAME_SPACE'', PInt 2), (''APP_ID'', PStr ''18''), (''MESSAGE'', PNone)]\<rparr>,
     \<lparr>name = ''Dove Channel'', country = [''usa'', ''can''], id' = Some ''42'',
      config = [(''NAME_SPACE'', PInt 2), (''APP_ID'', PStr ''16''), (''MESSAGE'', PNone)]\<rparr>,
     \<lparr>name = ''Love Destination'', country = [''*''], id' = Some ''64'',
      config = [(''NAME_SPACE'', PInt 2), (''APP_ID'', PStr ''57''), (''MESSAGE'', PNone)]\<rparr>,
     \<lparr>name = ''WatchFree'', country = [''usa''], id' = Some ''48'',
      config = [(''NAME_SPACE'', PInt 2), (''APP_ID'', PStr ''22''), (''MESSAGE'', PNone)]\<rparr>,
     \<lparr>name = ''AsianCrush'', country = [''usa'', ''can''], id' = Some ''50'',
      config = [(''NAME_SPACE'', PInt 2), (''APP_ID'', PStr ''27''),
                (''MESSAGE'', PStr ''https://html5.asiancrush.com/?ua=viziosmartcast'')]\<rparr>
    ]\<close>

section \<open>Launch commands\<close>

text \<open>
  Modelled from the spec: the table \<^verbatim>\<open>ENDPOINT\<close> of \<^verbatim>\<open>pyvizio._api._protocol\<close> and the
  class \<^verbatim>\<open>CommandBase\<close> of \<^verbatim>\<open>pyvizio._api.base\<close> are not part of the sources. The spec
  describes the endpoint resolver as "a mapping from device type to its launch app
  endpoint", and the command as "an opaque launch-request object bound to the
  device-type-specific launch app endpoint, carrying an embedded AppConfig as its payload
  body". The table is a parameter of the constructors, a dict of dicts that the code
  subscripts twice; the command object keeps the endpoint and the attribute \<^verbatim>\<open>VALUE\<close>.
\<close>

type_synonym endpoint_table = "(string \<times> (string \<times> string) list) list"

record LaunchAppConfigCommand =
  endpoint :: string
  VALUE :: AppConfig

text \<open>The body of \<^verbatim>\<open>LaunchAppConfigCommand.__init__\<close>, once its arguments are bound.\<close>

definition LaunchAppConfigCommand_init ::
  "endpoint_table \<Rightarrow> string \<Rightarrow> pyval \<Rightarrow> pyval \<Rightarrow> pyval \<Rightarrow> error + LaunchAppConfigCommand" where
  "LaunchAppConfigCommand_init ENDPOINT device_type a n m =
     (case getitem ENDPOINT device_type of
        Inl e \<Rightarrow> Inl e
      | Inr endpoints \<Rightarrow>
          (case getitem endpoints ''LAUNCH_APP'' of
             Inl e \<Rightarrow> Inl e
           | Inr url \<Rightarrow> Inr \<lparr>endpoint = url, VALUE = AppConfig_init a n m\<rparr>))"

text \<open>
  The call \<^verbatim>\<open>LaunchAppConfigCommand.__init__(device_type, **kw)\<close>. The parameters
  \<^verbatim>\<open>APP_ID\<close> and \<^verbatim>\<open>NAME_SPACE\<close> have no default, \<^verbatim>\<open>MESSAGE\<close> defaults to \<^verbatim>\<open>None\<close>; the
  arguments are bound before the body runs.
\<close>

definition LaunchAppConfigCommand_kwargs ::
  "endpoint_table \<Rightarrow> string \<Rightarrow> (string \<times> pyval) list \<Rightarrow> error + LaunchAppConfigCommand" where
  "LaunchAppConfigCommand_kwargs ENDPOINT device_type kw =
     (if unexpected_kwargs [''APP_ID'', ''NAME_SPACE'', ''MESSAGE''] kw then Inl TypeError
      else
        (case kwarg_required kw ''APP_ID'' of
           Inl e \<Rightarrow> Inl e
         | Inr a \<Rightarrow>
             (case kwarg_required kw ''NAME_SPACE'' of
                Inl e \<Rightarrow> Inl e
              | Inr n \<Rightarrow>
                  LaunchAppConfigCommand_init ENDPOINT device_type a n
                    (kwarg_default kw ''MESSAGE'' PNone))))"

text \<open>
  The generator of \<^verbatim>\<open>LaunchAppNameCommand.__init__\<close>: the first entry whose lowered name
  is the lowered \<^verbatim>\<open>app_name\<close>; \<^verbatim>\<open>None\<close> stands for the fallback \<^verbatim>\<open>dict()\<close>.
\<close>

definition app_def_by_name :: "app_def list \<Rightarrow> string \<Rightarrow> app_def option" where
  "app_def_by_name apps app_name = find (\<lambda>app_def. lower (name app_def) = lower app_name) apps"

text \<open>\<^verbatim>\<open>app_def.get("config", dict())\<close>; the fallback \<^verbatim>\<open>dict()\<close> has no key \<^verbatim>\<open>"config"\<close>.\<close>

definition get_config :: "app_def option \<Rightarrow> (string \<times> pyval) list" where
  "get_config app_def = (case app_def of None \<Rightarrow> [] | Some d \<Rightarrow> config d)"

definition LaunchAppNameCommand_init ::
  "endpoint_table \<Rightarrow> string \<Rightarrow> string \<Rightarrow> error + LaunchAppConfigCommand" where
  "LaunchAppNameCommand_init ENDPOINT device_type app_name =
     LaunchAppConfigCommand_kwargs ENDPOINT device_type
       (get_config (app_def_by_name (APP_HOME @ APPS) app_name))"

section \<open>GetCurrentAppNameCommand\<close>

text \<open>
  The generator of \<^verbatim>\<open>GetCurrentAppNameCommand.process_response\<close>: the first entry whose
  \<^verbatim>\<open>config["APP_ID"]\<close> and \<^verbatim>\<open>config["NAME_SPACE"]\<close> equal those of the current config.
  A subscript of a missing key raises \<^verbatim>\<open>KeyError\<close>; \<^verbatim>\<open>and\<close> evaluates its right operand
  only when the left one holds.
\<close>

fun app_def_by_config :: "app_def list \<Rightarrow> AppConfig \<Rightarrow> error + app_def option" where
  "app_def_by_config [] current_app_config = Inr None"
| "app_def_by_config (app_def # apps) current_app_config =
     (case getitem (config app_def) ''APP_ID'' of
        Inl e \<Rightarrow> Inl e
      | Inr a \<Rightarrow>
          if py_eq a (APP_ID current_app_config) then
            (case getitem (config app_def) ''NAME_SPACE'' of
               Inl e \<Rightarrow> Inl e
             | Inr n \<Rightarrow>
                 if py_eq n (NAME_SPACE current_app_config) then Inr (Some app_def)
                 else app_def_by_config apps current_app_config)
          else app_def_by_config apps current_app_config)"

text \<open>
  The constants \<^verbatim>\<open>NO_APP_RUNNING\<close> and \<^verbatim>\<open>UNKNOWN_APP\<close> of \<^verbatim>\<open>pyvizio.const\<close> are not part of
  the sources; they are parameters. \<^verbatim>\<open>!=\<close> is the negation of \<^verbatim>\<open>__eq__\<close>, and the
  \<^verbatim>\<open>AppConfig()\<close> compared with is a fresh object.
\<close>

definition GetCurrentAppName_process_response :: "string \<Rightarrow> string \<Rightarrow> pyval \<Rightarrow> error + string" where
  "GetCurrentAppName_process_response NO_APP_RUNNING UNKNOWN_APP json_obj =
     (case GetCurrentAppConfig_process_response json_obj of
        Inl e \<Rightarrow> Inl e
      | Inr current_app_config \<Rightarrow>
          if \<not> AppConfig_eq False current_app_config (AppConfig_init PNone PNone PNone) then
            (case app_def_by_config (APP_HOME @ APPS) current_app_config of
               Inl e \<Rightarrow> Inl e
             | Inr app_def \<Rightarrow>
                 Inr (case app_def of None \<Rightarrow> UNKNOWN_APP | Some d \<Rightarrow> name d))
          else Inr NO_APP_RUNNING)"

section \<open>Notions used in the statements\<close>

text \<open>
  A Python dict has no key twice. The association lists of values that come from Python
  therefore have distinct keys, at every depth.
\<close>

fun wf_pyval :: "pyval \<Rightarrow> bool" where
  "wf_pyval (PList xs) = list_all wf_pyval xs"
| "wf_pyval (PDict d) = (distinct (map fst d) \<and> list_all (\<lambda>(k, v). wf_pyval v) d)"
| "wf_pyval _ = True"

text \<open>The pair \<^verbatim>\<open>(config["APP_ID"], config["NAME_SPACE"])\<close> of a catalog entry.\<close>

definition config_pair :: "app_def \<Rightarrow> (error + pyval) \<times> (error + pyval)" where
  "config_pair app_def =
     (getitem (config app_def) ''APP_ID'', getitem (config app_def) ''NAME_SPACE'')"

text \<open>
  A catalog entry matches a config when both components of its pair are equal, by
  \<^verbatim>\<open>==\<close>, to the config's \<^verbatim>\<open>APP_ID\<close> and \<^verbatim>\<open>NAME_SPACE\<close>; \<^verbatim>\<open>MESSAGE\<close> plays no part.
\<close>

definition config_matches :: "app_def \<Rightarrow> AppConfig \<Rightarrow> bool" where
  "config_matches app_def c =
     (case config_pair app_def of
        (Inr a, Inr n) \<Rightarrow> py_eq a (APP_ID c) \<and> py_eq n (NAME_SPACE c)
      | _ \<Rightarrow> False)"

text \<open>Every entry of the tables has a string \<^verbatim>\<open>APP_ID\<close> and an integer \<^verbatim>\<open>NAME_SPACE\<close>.\<close>

fun is_str_int_pair :: "(error + pyval) \<times> (error + pyval) \<Rightarrow> bool" where
  "is_str_int_pair (Inr (PStr s), Inr (PInt n)) = True"
| "is_str_int_pair _ = False"

definition typed_entry :: "app_def \<Rightarrow> bool" where
  "typed_entry app_def = is_str_int_pair (config_pair app_def)"

text \<open>\<^verbatim>\<open>AppConfig()\<close>: all three attributes are \<^verbatim>\<open>None\<close>.\<close>

definition default_AppConfig :: AppConfig where
  "default_AppConfig = AppConfig_init PNone PNone PNone"

text \<open>An endpoint table with one device type, for the concrete instances below.\<close>

definition example_ENDPOINT :: endpoint_table where
  "example_ENDPOINT = [(''tv'', [(''LAUNCH_APP'', ''/app/launch'')])]"




section \<open>Basic facts\<close>

text \<open>\<^const>\<open>lower_char\<close> on a character literal sets bit 5 of the codes 65 to 90.\<close>

lemma lower_char_Char:
  "lower_char (Char b0 b1 b2 b3 b4 b5 b6 b7) =
     (if \<not> b7 \<and> b6 \<and> \<not> b5 \<and>
         ((\<not> b4 \<and> (b0 \<or> b1 \<or> b2 \<or> b3)) \<or> (b4 \<and> \<not> (b3 \<and> (b2 \<or> (b1 \<and> b0)))))
      then Char b0 b1 b2 b3 b4 True b6 b7
      else Char b0 b1 b2 b3 b4 b5 b6 b7)"
  by (cases b0; cases b1; cases b2; cases b3; cases b4; cases b5; cases b6; cases b7)
     (simp_all add: lower_char_def)

lemma lower_Nil: "lower [] = []"
  by (simp add: lower_def)

lemma lower_Cons: "lower (c # cs) = lower_char c # lower cs"
  by (simp add: lower_def)

lemma lower_item: "lower ResponseKey_ITEM = ''item''"
  by (simp add: ResponseKey_ITEM_def lower_def lower_char_Char)

lemma lower_value: "lower ResponseKey_VALUE = ''value''"
  by (simp add: ResponseKey_VALUE_def lower_def lower_char_Char)

text \<open>\<^verbatim>\<open>==\<close> is reflexive on values without a duplicate key.\<close>

lemma py_eq_refl: "wf_pyval x \<Longrightarrow> py_eq x x"
proof (induction x)
  case (PList xs)
  then show ?case by (simp add: list_all2_same list_all_iff)
next
  case (PDict d)
  have "\<And>k v. (k, v) \<in> set d \<Longrightarrow> map_of d k = Some v \<and> py_eq v v"
  proof -
    fix k v assume kv: "(k, v) \<in> set d"
    from PDict.prems have "distinct (map fst d)" and "wf_pyval v"
      using kv by (auto simp: list_all_iff)
    moreover have "py_eq v v"
      using PDict.IH [of "(k, v)" v] kv \<open>wf_pyval v\<close> by simp
    ultimately show "map_of d k = Some v \<and> py_eq v v" using kv by simp
  qed
  then show ?case by (auto simp: list_all_iff)
qed simp_all

lemma py_eq_None_iff: "py_eq x PNone \<longleftrightarrow> x = PNone"
  by (cases x) simp_all

lemma py_eq_Str_iff: "py_eq (PStr s) x \<longleftrightarrow> x = PStr s"
  by (cases x) auto

lemma AppConfig_eq_fields:
  "AppConfig_eq b x y \<longleftrightarrow>
     b \<or> (py_eq (APP_ID x) (APP_ID y) \<and> py_eq (NAME_SPACE x) (NAME_SPACE y) \<and>
          py_eq (MESSAGE x) (MESSAGE y))"
  by (simp add: AppConfig_eq_def AppConfig_dict_def)

lemma AppConfig_eq_default:
  "AppConfig_eq False c (AppConfig_init PNone PNone PNone) \<longleftrightarrow> c = default_AppConfig"
  by (cases c) (auto simp: AppConfig_eq_fields AppConfig_init_def default_AppConfig_def py_eq_None_iff)

subsection \<open>The catalog\<close>

lemma catalog_lower_names:
  "map (\<lambda>d. lower (name d)) (APP_HOME @ APPS) =
    [''smartcast home'', ''prime video'', ''cbs all access'', ''cbs news'', ''crackle'',
     ''curiosity stream'', ''fandango now'', ''filmrise'', ''flixfling'', ''haystack tv'',
     ''hulu'', ''iheartradio'', ''nbc'', ''netflix'', ''plex'', ''pluto tv'', ''redbox'',
     ''tasteit'', ''toon goggles'', ''vudu'', ''xumo'', ''youtubetv'', ''youtube'', ''baeble'',
     ''dazn'', ''fitfusion by jillian michaels'', ''newsy'', ''cocoro tv'', ''contv'',
     ''dove channel'', ''love destination'', ''watchfree'', ''asiancrush'']"
  by (simp add: APP_HOME_def APPS_def lower_def lower_char_Char)

lemma catalog_names_distinct: "distinct (map (\<lambda>d. lower (name d)) (APP_HOME @ APPS))"
  unfolding catalog_lower_names by simp

lemma typed_entryD:
  assumes "typed_entry E"
  obtains s n where "config_pair E = (Inr (PStr s), Inr (PInt n))"
  using assms unfolding typed_entry_def by (rule is_str_int_pair.elims(2))

lemma catalog_typed: "list_all typed_entry (APP_HOME @ APPS)"
  by (simp add: APP_HOME_def APPS_def typed_entry_def config_pair_def getitem_def)

text \<open>On a table of typed entries the scan raises nothing and is \<^const>\<open>find\<close>.\<close>

lemma app_def_by_config_find:
  "list_all typed_entry apps \<Longrightarrow>
   app_def_by_config apps c = Inr (find (\<lambda>d. config_matches d c) apps)"
proof (induction apps)
  case Nil
  show ?case by simp
next
  case (Cons d ds)
  then have "typed_entry d"
    and IH: "app_def_by_config ds c = Inr (find (\<lambda>d. config_matches d c) ds)"
    by simp_all
  from \<open>typed_entry d\<close> obtain s n where
    "config_pair d = (Inr (PStr s), Inr (PInt n))"
    by (rule typed_entryD)
  then have "getitem (config d) ''APP_ID'' = Inr (PStr s)"
    "getitem (config d) ''NAME_SPACE'' = Inr (PInt n)"
    by (simp_all add: config_pair_def)
  then show ?case using IH
    by (simp add: config_matches_def config_pair_def)
qed

text \<open>Between typed entries, matching a config built from one is sharing its pair.\<close>

lemma typed_matches_pair:
  assumes "typed_entry E" "typed_entry F"
    and "config_pair E = (Inr (APP_ID c), Inr (NAME_SPACE c))"
  shows "config_matches F c \<longleftrightarrow> config_pair F = config_pair E"
proof -
  from assms(1) obtain s n where E: "config_pair E = (Inr (PStr s), Inr (PInt n))"
    by (rule typed_entryD)
  from assms(2) obtain t m where F: "config_pair F = (Inr (PStr t), Inr (PInt m))"
    by (rule typed_entryD)
  from E assms(3) have c: "APP_ID c = PStr s" "NAME_SPACE c = PInt n" by simp_all
  show ?thesis
    by (simp add: config_matches_def F E c)
qed

lemma find_distinct_key:
  "distinct (map f xs) \<Longrightarrow> x \<in> set xs \<Longrightarrow> find (\<lambda>y. f y = f x) xs = Some x"
  by (induction xs) auto

subsection \<open>Parsing a response\<close>


lemma upper_keys: "lower ''ITEM'' = ''item''" "lower ''VALUE'' = ''value''"
  by (simp_all add: lower_Nil lower_Cons lower_char_Char)

text \<open>Once both lookups have returned, the rest is the truth test and the unpacking.\<close>

lemma process_response_steps:
  assumes "dict_get_case_insensitive json_obj ResponseKey_ITEM (PDict []) = Inr item"
    and "dict_get_case_insensitive item ResponseKey_VALUE PNone = Inr v"
  shows "GetCurrentAppConfig_process_response json_obj =
           (if truthy v then AppConfig_kwargs v else Inr default_AppConfig)"
  using assms by (simp add: GetCurrentAppConfig_process_response_def default_AppConfig_def)

text \<open>A response with one item key and one value key, in any letter case.\<close>

lemma nested_lookup:
  assumes "lower item_key = ''item''" "lower value_key = ''value''"
  shows "dict_get_case_insensitive (PDict [(item_key, PDict [(value_key, v)])])
           ResponseKey_ITEM (PDict []) = Inr (PDict [(value_key, v)])"
    and "dict_get_case_insensitive (PDict [(value_key, v)]) ResponseKey_VALUE PNone = Inr v"
  using assms by (simp_all add: lower_item lower_value)

lemma empty_lookup:
  "dict_get_case_insensitive (PDict []) ResponseKey_ITEM (PDict []) = Inr (PDict [])"
  "dict_get_case_insensitive (PDict []) ResponseKey_VALUE PNone = Inr PNone"
  by simp_all

text \<open>Keys that are parameter names, letter for letter, bind; a missing one is \<^verbatim>\<open>None\<close>.\<close>

lemma kwargs_exact:
  assumes "set (map fst kw) \<subseteq> {''APP_ID'', ''NAME_SPACE'', ''MESSAGE''}"
  shows "AppConfig_kwargs (PDict kw) =
           Inr \<lparr>APP_ID = (case map_of kw ''APP_ID'' of None \<Rightarrow> PNone | Some a \<Rightarrow> a),
                NAME_SPACE = (case map_of kw ''NAME_SPACE'' of None \<Rightarrow> PNone | Some n \<Rightarrow> n),
                MESSAGE = (case map_of kw ''MESSAGE'' of None \<Rightarrow> PNone | Some m \<Rightarrow> m)\<rparr>"
proof -
  have "\<not> unexpected_kwargs [''APP_ID'', ''NAME_SPACE'', ''MESSAGE''] kw"
    using assms unfolding unexpected_kwargs_def list_ex_iff by auto
  then show ?thesis
    by (simp add: kwarg_default_def AppConfig_init_def)
qed




lemma string_name_space_config:
  "GetCurrentAppConfig_process_response
     (PDict [(''ITEM'', PDict [(''VALUE'',
        PDict [(''APP_ID'', PStr ''1''), (''NAME_SPACE'', PStr ''3'')])])])
   = Inr \<lparr>APP_ID = PStr ''1'', NAME_SPACE = PStr ''3'', MESSAGE = PNone\<rparr>"
  using process_response_steps [OF nested_lookup [OF upper_keys]]
  by (simp add: unexpected_kwargs_def kwarg_default_def AppConfig_init_def)

subsection \<open>Lookups in the catalog\<close>

lemma find_first_index:
  assumes "x \<in> set xs" "P x"
  shows "\<exists>i<length xs. find P xs = Some (xs ! i) \<and> P (xs ! i) \<and> (\<forall>j<i. \<not> P (xs ! j))"
proof -
  from assms obtain y where "find P xs = Some y"
    by (cases "find P xs") (auto simp: find_None_iff)
  then show ?thesis by (auto simp: find_Some_iff)
qed



lemma name_13: "name ((APP_HOME @ APPS) ! 13) = ''Netflix''"
  by (simp add: APP_HOME_def APPS_def)

lemma netflix_in_catalog: "(APP_HOME @ APPS) ! 13 \<in> set (APP_HOME @ APPS)"
  by (rule nth_mem) (simp add: APP_HOME_def APPS_def)

lemma netflix_entry_config:
  "config ((APP_HOME @ APPS) ! 13) =
     [(''NAME_SPACE'', PInt 3), (''APP_ID'', PStr ''1''), (''MESSAGE'', PNone)]"
  by (simp add: APP_HOME_def APPS_def)

lemma netflix_by_name:
  "app_def_by_name (APP_HOME @ APPS) ''Netflix'' = Some ((APP_HOME @ APPS) ! 13)"
  unfolding app_def_by_name_def
  by (simp add: APP_HOME_def APPS_def lower_Nil lower_Cons lower_char_Char)

lemma netflix_case_permutation: "lower ''nEtFLIX'' = lower (name ((APP_HOME @ APPS) ! 13))"
  by (simp add: name_13 lower_Nil lower_Cons lower_char_Char)

lemma totally_unknown_unmatched:
  "list_all (\<lambda>d. lower (name d) \<noteq> lower ''totally-unknown'') (APP_HOME @ APPS)"
  by (simp add: APP_HOME_def APPS_def lower_Nil lower_Cons lower_char_Char)

lemma example_endpoint:
  "getitem example_ENDPOINT ''tv'' = Inr [(''LAUNCH_APP'', ''/app/launch'')]
   \<and> getitem [(''LAUNCH_APP'', ''/app/launch'')] ''LAUNCH_APP'' = Inr ''/app/launch''"
  by (simp add: example_ENDPOINT_def getitem_def)

text \<open>The two entries with \<^verbatim>\<open>APP_ID\<close> \<^verbatim>\<open>"21"\<close> and \<^verbatim>\<open>NAME_SPACE\<close> 2.\<close>

lemma toon_goggles_first:
  "find (\<lambda>d. config_matches d \<lparr>APP_ID = PStr ''21'', NAME_SPACE = PInt 2, MESSAGE = m\<rparr>)
     (APP_HOME @ APPS) = Some ((APP_HOME @ APPS) ! 18)"
  by (simp add: APP_HOME_def APPS_def config_matches_def config_pair_def getitem_def)

lemma pair_21_2_names:
  "map name (filter (\<lambda>d. config_pair d = (Inr (PStr ''21''), Inr (PInt 2))) (APP_HOME @ APPS))
   = [''Toon Goggles'', ''Vudu'']"
  by (simp add: APP_HOME_def APPS_def config_pair_def getitem_def)

lemma dup_pair:
  "list_all (\<lambda>E. name E = ''Toon Goggles'' \<or> name E = ''Vudu'' \<longrightarrow>
                 config_pair E = (Inr (PStr ''21''), Inr (PInt 2))) (APP_HOME @ APPS)"
  by (simp add: APP_HOME_def APPS_def config_pair_def getitem_def)

lemma vudu_entry:
  "(APP_HOME @ APPS) ! 19 \<in> set (APP_HOME @ APPS)"
  "config_pair ((APP_HOME @ APPS) ! 19) = (Inr (PStr ''21''), Inr (PInt 2))"
  "name ((APP_HOME @ APPS) ! 19) = ''Vudu''"
  by (simp_all add: APP_HOME_def APPS_def config_pair_def getitem_def)

text \<open>A string \<^verbatim>\<open>NAME_SPACE\<close> equals no integer, so it matches no typed entry.\<close>

lemma str_name_space_no_match:
  assumes "typed_entry F" and "NAME_SPACE c = PStr s"
  shows "\<not> config_matches F c"
proof -
  from assms(1) obtain t n where "config_pair F = (Inr (PStr t), Inr (PInt n))"
    by (rule typed_entryD)
  with assms(2) show ?thesis by (simp add: config_matches_def)
qed

text \<open>The name of the running app, with the scan of the catalog as \<^const>\<open>find\<close>.\<close>

lemma name_response_find:
  assumes "GetCurrentAppConfig_process_response json_obj = Inr c"
  shows "GetCurrentAppName_process_response NO_APP_RUNNING UNKNOWN_APP json_obj =
     Inr (if c = default_AppConfig then NO_APP_RUNNING
          else case find (\<lambda>d. config_matches d c) (APP_HOME @ APPS) of
                 None \<Rightarrow> UNKNOWN_APP
               | Some d \<Rightarrow> name d)"
  using assms
  by (simp add: GetCurrentAppName_process_response_def AppConfig_eq_default
      app_def_by_config_find [OF catalog_typed])

lemma launch_netflix:
  assumes "getitem ENDPOINT device_type = Inr endpoints"
    and "getitem endpoints ''LAUNCH_APP'' = Inr url"
  shows "LaunchAppNameCommand_init ENDPOINT device_type ''Netflix'' =
           Inr \<lparr>endpoint = url,
                VALUE = \<lparr>APP_ID = PStr ''1'', NAME_SPACE = PInt 3, MESSAGE = PNone\<rparr>\<rparr>"
  using assms
  by (simp add: LaunchAppNameCommand_init_def netflix_by_name get_config_def netflix_entry_config
      LaunchAppConfigCommand_kwargs_def unexpected_kwargs_def kwarg_required_def kwarg_default_def
      LaunchAppConfigCommand_init_def AppConfig_init_def)

text \<open>Every config of the tables is a dict of the three keys, in the same order.\<close>

lemma catalog_config_keys:
  "list_all (\<lambda>d. map fst (config d) = [''NAME_SPACE'', ''APP_ID'', ''MESSAGE''])
     (APP_HOME @ APPS)"
  by (simp add: APP_HOME_def APPS_def)

lemma three_keys:
  assumes "map fst kw = [''NAME_SPACE'', ''APP_ID'', ''MESSAGE'']"
  obtains a n m where "kw = [(''NAME_SPACE'', n), (''APP_ID'', a), (''MESSAGE'', m)]"
  using assms by (auto simp: map_eq_Cons_conv)

text \<open>Unpacking such a config binds its three values and builds the command.\<close>

lemma launch_three_keys:
  assumes "getitem ENDPOINT device_type = Inr endpoints"
    and "getitem endpoints ''LAUNCH_APP'' = Inr url"
  shows "LaunchAppConfigCommand_kwargs ENDPOINT device_type
           [(''NAME_SPACE'', n), (''APP_ID'', a), (''MESSAGE'', m)] =
         Inr \<lparr>endpoint = url, VALUE = \<lparr>APP_ID = a, NAME_SPACE = n, MESSAGE = m\<rparr>\<rparr>"
  using assms
  by (simp add: LaunchAppConfigCommand_kwargs_def unexpected_kwargs_def kwarg_required_def
      kwarg_default_def LaunchAppConfigCommand_init_def AppConfig_init_def)

section \<open>Launching by name\<close>

lemma unmatched_name_raises:
  assumes "app_def_by_name (APP_HOME @ APPS) app_name = None"
  shows "LaunchAppNameCommand_init ENDPOINT device_type app_name = Inl TypeError"
  using assms
  by (simp add: LaunchAppNameCommand_init_def get_config_def LaunchAppConfigCommand_kwargs_def
      unexpected_kwargs_def kwarg_required_def)

lemma nonexistent_unmatched:
  "list_all (\<lambda>d. lower (name d) \<noteq> lower ''nonexistent-app'') (APP_HOME @ APPS)"
  by (simp add: APP_HOME_def APPS_def lower_def lower_char_Char)

text \<open>
  C1. The claim: for every app name that matches no entry of \<^verbatim>\<open>APP_HOME + APPS\<close>
  (comparing lowered names), \<^verbatim>\<open>LaunchAppNameCommand(device_type, app_name)\<close> succeeds and
  carries an \<^verbatim>\<open>AppConfig\<close> with three \<^verbatim>\<open>None\<close> fields. The code sets the fallbacks
  \<^verbatim>\<open>dict()\<close> up for exactly this case, and then unpacks the empty dict into a constructor
  whose parameters \<^verbatim>\<open>APP_ID\<close> and \<^verbatim>\<open>NAME_SPACE\<close> have no default: for every such name,
  every device type and every endpoint table the construction raises \<^verbatim>\<open>TypeError\<close> and
  no command object exists.
\<close>

theorem LaunchAppNameCommand_unmatched_raises:
  assumes "list_all (\<lambda>app_def. lower (name app_def) \<noteq> lower app_name) (APP_HOME @ APPS)"
  shows "LaunchAppNameCommand_init ENDPOINT device_type app_name = Inl TypeError"
proof -
  have "app_def_by_name (APP_HOME @ APPS) app_name = None"
    using assms by (auto simp: app_def_by_name_def find_None_iff list_all_iff)
  then show ?thesis by (rule unmatched_name_raises)
qed

theorem LaunchAppNameCommand_unmatched_raises_witness:
  "LaunchAppNameCommand_init example_ENDPOINT ''tv'' ''nonexistent-app'' = Inl TypeError"
  using LaunchAppNameCommand_unmatched_raises [OF nonexistent_unmatched] .

text \<open>
  C6. Name resolution is case-insensitive and total over the catalog: a name that lowers
  to the lowered name of an entry \<open>E\<close> (every case permutation of the name of \<open>E\<close> does)
  resolves to \<open>E\<close> itself, no other entry having that lowered name, and a name that
  matches no entry resolves to nothing. For a device type whose endpoints hold
  \<^verbatim>\<open>"LAUNCH_APP"\<close>, the command built from such a name carries the three values of the
  config of \<open>E\<close>; in particular \<^verbatim>\<open>LaunchAppNameCommand(device_type, "Netflix")\<close> carries
  \<^verbatim>\<open>APP_ID\<close> \<^verbatim>\<open>"1"\<close>, \<^verbatim>\<open>NAME_SPACE\<close> 3 and \<^verbatim>\<open>MESSAGE\<close> \<^verbatim>\<open>None\<close>.
\<close>

theorem name_resolution_case_insensitive:
  "(E \<in> set (APP_HOME @ APPS) \<and> lower app_name = lower (name E) \<longrightarrow>
      app_def_by_name (APP_HOME @ APPS) app_name = Some E)
   \<and> (list_all (\<lambda>d. lower (name d) \<noteq> lower app_name) (APP_HOME @ APPS) \<longrightarrow>
      app_def_by_name (APP_HOME @ APPS) app_name = None)
   \<and> (E \<in> set (APP_HOME @ APPS) \<and> lower app_name = lower (name E) \<and>
       getitem ENDPOINT device_type = Inr endpoints \<and>
       getitem endpoints ''LAUNCH_APP'' = Inr url \<longrightarrow>
      (\<exists>a n m. config E = [(''NAME_SPACE'', n), (''APP_ID'', a), (''MESSAGE'', m)] \<and>
         LaunchAppNameCommand_init ENDPOINT device_type app_name =
           Inr \<lparr>endpoint = url, VALUE = \<lparr>APP_ID = a, NAME_SPACE = n, MESSAGE = m\<rparr>\<rparr>))
   \<and> (getitem ENDPOINT device_type = Inr endpoints \<and>
       getitem endpoints ''LAUNCH_APP'' = Inr url \<longrightarrow>
      LaunchAppNameCommand_init ENDPOINT device_type ''Netflix'' =
        Inr \<lparr>endpoint = url,
             VALUE = \<lparr>APP_ID = PStr ''1'', NAME_SPACE = PInt 3, MESSAGE = PNone\<rparr>\<rparr>)"
proof -
  have resolved: "app_def_by_name (APP_HOME @ APPS) app_name = Some E"
    if a: "E \<in> set (APP_HOME @ APPS) \<and> lower app_name = lower (name E)"
  proof -
    from a have "find (\<lambda>d. lower (name d) = lower (name E)) (APP_HOME @ APPS) = Some E"
      using find_distinct_key [OF catalog_names_distinct, of E] by simp
    with a show ?thesis by (simp add: app_def_by_name_def)
  qed
  have unmatched: "app_def_by_name (APP_HOME @ APPS) app_name = None"
    if "list_all (\<lambda>d. lower (name d) \<noteq> lower app_name) (APP_HOME @ APPS)"
    using that by (auto simp: app_def_by_name_def find_None_iff list_all_iff)
  have launched: "\<exists>a n m. config E = [(''NAME_SPACE'', n), (''APP_ID'', a), (''MESSAGE'', m)] \<and>
         LaunchAppNameCommand_init ENDPOINT device_type app_name =
           Inr \<lparr>endpoint = url, VALUE = \<lparr>APP_ID = a, NAME_SPACE = n, MESSAGE = m\<rparr>\<rparr>"
    if b: "E \<in> set (APP_HOME @ APPS) \<and> lower app_name = lower (name E) \<and>
       getitem ENDPOINT device_type = Inr endpoints \<and>
       getitem endpoints ''LAUNCH_APP'' = Inr url"
  proof -
    from b have found: "app_def_by_name (APP_HOME @ APPS) app_name = Some E"
      using resolved by simp
    from b have "map fst (config E) = [''NAME_SPACE'', ''APP_ID'', ''MESSAGE'']"
      using catalog_config_keys by (auto simp: list_all_iff)
    then obtain a n m where cfg: "config E = [(''NAME_SPACE'', n), (''APP_ID'', a), (''MESSAGE'', m)]"
      by (rule three_keys)
    have "LaunchAppNameCommand_init ENDPOINT device_type app_name =
            LaunchAppConfigCommand_kwargs ENDPOINT device_type (config E)"
      by (simp add: LaunchAppNameCommand_init_def found get_config_def)
    also have "\<dots> = Inr \<lparr>endpoint = url, VALUE = \<lparr>APP_ID = a, NAME_SPACE = n, MESSAGE = m\<rparr>\<rparr>"
      unfolding cfg using b by (simp add: launch_three_keys)
    finally show ?thesis using cfg by blast
  qed
  have netflix: "LaunchAppNameCommand_init ENDPOINT device_type ''Netflix'' =
        Inr \<lparr>endpoint = url,
             VALUE = \<lparr>APP_ID = PStr ''1'', NAME_SPACE = PInt 3, MESSAGE = PNone\<rparr>\<rparr>"
    if "getitem ENDPOINT device_type = Inr endpoints \<and>
       getitem endpoints ''LAUNCH_APP'' = Inr url"
    using that launch_netflix by simp
  show ?thesis
    using resolved unmatched launched netflix by (intro conjI impI)
qed

theorem name_resolution_case_insensitive_witness:
  "app_def_by_name (APP_HOME @ APPS) ''nEtFLIX'' = Some ((APP_HOME @ APPS) ! 13)
   \<and> name ((APP_HOME @ APPS) ! 13) = ''Netflix''
   \<and> app_def_by_name (APP_HOME @ APPS) ''totally-unknown'' = None
   \<and> LaunchAppNameCommand_init example_ENDPOINT ''tv'' ''nEtFLIX'' =
        Inr \<lparr>endpoint = ''/app/launch'',
             VALUE = \<lparr>APP_ID = PStr ''1'', NAME_SPACE = PInt 3, MESSAGE = PNone\<rparr>\<rparr>
   \<and> LaunchAppNameCommand_init example_ENDPOINT ''tv'' ''Netflix'' =
        Inr \<lparr>endpoint = ''/app/launch'',
             VALUE = \<lparr>APP_ID = PStr ''1'', NAME_SPACE = PInt 3, MESSAGE = PNone\<rparr>\<rparr>"
proof -
  note permuted = name_resolution_case_insensitive
    [of "(APP_HOME @ APPS) ! 13" "''nEtFLIX''" example_ENDPOINT "''tv''"
      "[(''LAUNCH_APP'', ''/app/launch'')]" "''/app/launch''"]
  note unknown = name_resolution_case_insensitive
    [of "(APP_HOME @ APPS) ! 13" "''totally-unknown''" example_ENDPOINT "''tv''"
      "[(''LAUNCH_APP'', ''/app/launch'')]" "''/app/launch''"]
  have "app_def_by_name (APP_HOME @ APPS) ''nEtFLIX'' = Some ((APP_HOME @ APPS) ! 13)"
    by (rule mp [OF conjunct1 [OF permuted]])
       (rule conjI [OF netflix_in_catalog netflix_case_permutation])
  moreover have "app_def_by_name (APP_HOME @ APPS) ''totally-unknown'' = None"
    by (rule mp [OF conjunct1 [OF conjunct2 [OF unknown]]]) (rule totally_unknown_unmatched)
  moreover have "\<exists>a n m.
      config ((APP_HOME @ APPS) ! 13) = [(''NAME_SPACE'', n), (''APP_ID'', a), (''MESSAGE'', m)] \<and>
      LaunchAppNameCommand_init example_ENDPOINT ''tv'' ''nEtFLIX'' =
        Inr \<lparr>endpoint = ''/app/launch'', VALUE = \<lparr>APP_ID = a, NAME_SPACE = n, MESSAGE = m\<rparr>\<rparr>"
    by (rule mp [OF conjunct1 [OF conjunct2 [OF conjunct2 [OF permuted]]]])
       (intro conjI netflix_in_catalog netflix_case_permutation
          conjunct1 [OF example_endpoint] conjunct2 [OF example_endpoint])
  then have "LaunchAppNameCommand_init example_ENDPOINT ''tv'' ''nEtFLIX'' =
        Inr \<lparr>endpoint = ''/app/launch'',
             VALUE = \<lparr>APP_ID = PStr ''1'', NAME_SPACE = PInt 3, MESSAGE = PNone\<rparr>\<rparr>"
    by (auto simp: netflix_entry_config)
  moreover have "LaunchAppNameCommand_init example_ENDPOINT ''tv'' ''Netflix'' =
        Inr \<lparr>endpoint = ''/app/launch'',
             VALUE = \<lparr>APP_ID = PStr ''1'', NAME_SPACE = PInt 3, MESSAGE = PNone\<rparr>\<rparr>"
    by (rule mp [OF conjunct2 [OF conjunct2 [OF conjunct2 [OF permuted]]]])
       (rule example_endpoint)
  ultimately show ?thesis using name_13 by simp
qed

section \<open>The current app's config\<close>

text \<open>
  C7. On \<^verbatim>\<open>{"ITEM": {"VALUE": null}}\<close> the result is \<^verbatim>\<open>AppConfig()\<close>, on
  \<^verbatim>\<open>{"ITEM": {"VALUE": {"APP_ID": "1", "NAME_SPACE": 3}}}\<close> it is
  \<^verbatim>\<open>AppConfig("1", 3, None)\<close>, and so for every letter case of the keys \<^verbatim>\<open>ITEM\<close> and
  \<^verbatim>\<open>VALUE\<close>.
\<close>

theorem process_response_examples:
  assumes "lower item_key = ''item''" and "lower value_key = ''value''"
  shows "GetCurrentAppConfig_process_response (PDict [(item_key, PDict [(value_key, PNone)])])
           = Inr (AppConfig_init PNone PNone PNone)
       \<and> GetCurrentAppConfig_process_response
           (PDict [(item_key, PDict [(value_key,
              PDict [(''APP_ID'', PStr ''1''), (''NAME_SPACE'', PInt 3)])])])
           = Inr (AppConfig_init (PStr ''1'') (PInt 3) PNone)"
proof
  show "GetCurrentAppConfig_process_response (PDict [(item_key, PDict [(value_key, PNone)])])
           = Inr (AppConfig_init PNone PNone PNone)"
    using process_response_steps [OF nested_lookup [OF assms]]
    by (simp add: default_AppConfig_def)
  show "GetCurrentAppConfig_process_response
           (PDict [(item_key, PDict [(value_key,
              PDict [(''APP_ID'', PStr ''1''), (''NAME_SPACE'', PInt 3)])])])
           = Inr (AppConfig_init (PStr ''1'') (PInt 3) PNone)"
    using process_response_steps [OF nested_lookup [OF assms]]
    by (simp add: unexpected_kwargs_def kwarg_default_def)
qed

theorem process_response_examples_witness:
  "GetCurrentAppConfig_process_response (PDict [(''ITEM'', PDict [(''VALUE'', PNone)])])
           = Inr \<lparr>APP_ID = PNone, NAME_SPACE = PNone, MESSAGE = PNone\<rparr>
       \<and> GetCurrentAppConfig_process_response
           (PDict [(''ITEM'', PDict [(''VALUE'',
              PDict [(''APP_ID'', PStr ''1''), (''NAME_SPACE'', PInt 3)])])])
           = Inr \<lparr>APP_ID = PStr ''1'', NAME_SPACE = PInt 3, MESSAGE = PNone\<rparr>"
  using process_response_examples [OF upper_keys] by (simp add: AppConfig_init_def)

text \<open>
  C9. The value is tested for truth, not for presence: when the lookup of \<^verbatim>\<open>VALUE\<close>
  returns a falsy value (\<^verbatim>\<open>{}\<close>, \<^verbatim>\<open>[]\<close>, \<^verbatim>\<open>""\<close>, \<^verbatim>\<open>0\<close>, \<^verbatim>\<open>False\<close>, \<^verbatim>\<open>None\<close>) the
  result is \<^verbatim>\<open>AppConfig()\<close>, the result for a response whose item has no value at all.
\<close>

theorem process_response_falsy_value:
  assumes "dict_get_case_insensitive json_obj ResponseKey_ITEM (PDict []) = Inr item"
    and "dict_get_case_insensitive item ResponseKey_VALUE PNone = Inr v"
    and "\<not> truthy v"
  shows "GetCurrentAppConfig_process_response json_obj = Inr default_AppConfig
       \<and> GetCurrentAppConfig_process_response json_obj =
           GetCurrentAppConfig_process_response (PDict [(ResponseKey_ITEM, PDict [])])"
proof -
  have "GetCurrentAppConfig_process_response (PDict [(ResponseKey_ITEM, PDict [])])
          = Inr default_AppConfig"
    by (simp add: GetCurrentAppConfig_process_response_def default_AppConfig_def)
  then show ?thesis
    using process_response_steps [OF assms(1,2)] assms(3) by simp
qed

theorem process_response_falsy_value_witness:
  "GetCurrentAppConfig_process_response (PDict [(''ITEM'', PDict [(''VALUE'', PDict [])])])
     = Inr \<lparr>APP_ID = PNone, NAME_SPACE = PNone, MESSAGE = PNone\<rparr>
   \<and> GetCurrentAppConfig_process_response (PDict [(''ITEM'', PDict [(''VALUE'', PDict [])])])
     = GetCurrentAppConfig_process_response (PDict [(ResponseKey_ITEM, PDict [])])"
  using process_response_falsy_value [OF nested_lookup [OF upper_keys], of "PDict []"]
  by (auto simp: default_AppConfig_def AppConfig_init_def)

text \<open>
  C4. The claim: the fields of a present value object bind to the \<^verbatim>\<open>AppConfig\<close> under any
  letter case of their keys. The object is unpacked into keyword arguments, which bind by
  exact name: lower-case keys are no parameters of \<^verbatim>\<open>AppConfig.__init__\<close> and the call
  raises \<^verbatim>\<open>TypeError\<close>.
\<close>

theorem process_response_lowercase_fields_raise:
  "GetCurrentAppConfig_process_response
     (PDict [(''ITEM'', PDict [(''VALUE'',
        PDict [(''app_id'', PStr ''1''), (''name_space'', PInt 3), (''message'', PNone)])])])
   = Inl TypeError"
  using process_response_steps [OF nested_lookup [OF upper_keys]]
  by (simp add: unexpected_kwargs_def)

text \<open>
  C4, as amended: when the value object is not empty and each of its keys is one of
  \<^verbatim>\<open>APP_ID\<close>, \<^verbatim>\<open>NAME_SPACE\<close>, \<^verbatim>\<open>MESSAGE\<close>, in exactly this spelling, the resulting
  \<^verbatim>\<open>AppConfig\<close> carries the values of those keys, and \<^verbatim>\<open>None\<close> for a key that is missing.
\<close>

theorem process_response_binds_exact_names:
  assumes "dict_get_case_insensitive json_obj ResponseKey_ITEM (PDict []) = Inr item"
    and "dict_get_case_insensitive item ResponseKey_VALUE PNone = Inr (PDict kw)"
    and "kw \<noteq> []"
    and "set (map fst kw) \<subseteq> {''APP_ID'', ''NAME_SPACE'', ''MESSAGE''}"
  shows "GetCurrentAppConfig_process_response json_obj =
           Inr \<lparr>APP_ID = (case map_of kw ''APP_ID'' of None \<Rightarrow> PNone | Some a \<Rightarrow> a),
                NAME_SPACE = (case map_of kw ''NAME_SPACE'' of None \<Rightarrow> PNone | Some n \<Rightarrow> n),
                MESSAGE = (case map_of kw ''MESSAGE'' of None \<Rightarrow> PNone | Some m \<Rightarrow> m)\<rparr>"
  using process_response_steps [OF assms(1,2)] assms(3) kwargs_exact [OF assms(4)]
  by simp

theorem process_response_binds_exact_names_witness:
  "GetCurrentAppConfig_process_response
     (PDict [(''ITEM'', PDict [(''VALUE'',
        PDict [(''APP_ID'', PStr ''1''), (''NAME_SPACE'', PInt 3), (''MESSAGE'', PStr ''m'')])])])
   = Inr \<lparr>APP_ID = PStr ''1'', NAME_SPACE = PInt 3, MESSAGE = PStr ''m''\<rparr>"
  using process_response_binds_exact_names [OF nested_lookup [OF upper_keys],
      of "[(''APP_ID'', PStr ''1''), (''NAME_SPACE'', PInt 3), (''MESSAGE'', PStr ''m'')]"]
  by simp

text \<open>
  C5. The claim: \<^verbatim>\<open>process_response\<close> never raises, whatever is missing or malformed in
  the response. A value that is truthy and no mapping, here a string, is unpacked with
  \<^verbatim>\<open>**\<close> all the same, and the call raises \<^verbatim>\<open>TypeError\<close>.
\<close>

theorem process_response_malformed_value_raises:
  "GetCurrentAppConfig_process_response
     (PDict [(''ITEM'', PDict [(''VALUE'', PStr ''Netflix'')])])
   = Inl TypeError"
  using process_response_steps [OF nested_lookup [OF upper_keys]]
  by simp

text \<open>
  C5, as amended: \<^verbatim>\<open>process_response\<close> returns an \<^verbatim>\<open>AppConfig\<close> for every response object
  whose item is missing or an object and whose value is missing, falsy, or an object with
  no key other than \<^verbatim>\<open>APP_ID\<close>, \<^verbatim>\<open>NAME_SPACE\<close>, \<^verbatim>\<open>MESSAGE\<close>. A missing or falsy value
  gives \<^verbatim>\<open>AppConfig()\<close>, and each field that the value object lacks is \<^verbatim>\<open>None\<close>. (A missing
  item is the default \<^verbatim>\<open>{}\<close> of the first lookup, a missing value the default \<^verbatim>\<open>None\<close> of
  the second.)
\<close>

theorem process_response_returns_config:
  assumes "dict_get_case_insensitive (PDict json_obj) ResponseKey_ITEM (PDict [])
             = Inr (PDict item)"
    and "dict_get_case_insensitive (PDict item) ResponseKey_VALUE PNone = Inr v"
    and "\<not> truthy v \<or>
         (\<exists>kw. v = PDict kw \<and> set (map fst kw) \<subseteq> {''APP_ID'', ''NAME_SPACE'', ''MESSAGE''})"
  shows "\<exists>c. GetCurrentAppConfig_process_response (PDict json_obj) = Inr c
           \<and> (\<not> truthy v \<longrightarrow> c = default_AppConfig)
           \<and> (\<forall>kw. v = PDict kw \<longrightarrow>
                (map_of kw ''APP_ID'' = None \<longrightarrow> APP_ID c = PNone) \<and>
                (map_of kw ''NAME_SPACE'' = None \<longrightarrow> NAME_SPACE c = PNone) \<and>
                (map_of kw ''MESSAGE'' = None \<longrightarrow> MESSAGE c = PNone))"
proof (cases "truthy v")
  case False
  then have "GetCurrentAppConfig_process_response (PDict json_obj) = Inr default_AppConfig"
    using process_response_steps [OF assms(1,2)] by simp
  then show ?thesis
    by (simp add: default_AppConfig_def AppConfig_init_def)
next
  case True
  with assms(3) obtain kw where v: "v = PDict kw"
    and keys: "set (map fst kw) \<subseteq> {''APP_ID'', ''NAME_SPACE'', ''MESSAGE''}"
    by blast
  have "GetCurrentAppConfig_process_response (PDict json_obj) = AppConfig_kwargs (PDict kw)"
    using process_response_steps [OF assms(1,2)] True v by simp
  then show ?thesis
    using True v kwargs_exact [OF keys] by simp
qed

theorem process_response_returns_config_witness:
  "GetCurrentAppConfig_process_response (PDict []) = Inr default_AppConfig
   \<and> GetCurrentAppConfig_process_response
       (PDict [(''ITEM'', PDict [(''VALUE'', PDict [(''APP_ID'', PStr ''1'')])])])
     = Inr \<lparr>APP_ID = PStr ''1'', NAME_SPACE = PNone, MESSAGE = PNone\<rparr>"
proof
  have "\<not> truthy PNone" by simp
  then show "GetCurrentAppConfig_process_response (PDict []) = Inr default_AppConfig"
    using process_response_returns_config [OF empty_lookup] by auto
  have "set (map fst [(''APP_ID'', PStr ''1'')]) \<subseteq> {''APP_ID'', ''NAME_SPACE'', ''MESSAGE''}"
    by simp
  then obtain c where c: "GetCurrentAppConfig_process_response
       (PDict [(''ITEM'', PDict [(''VALUE'', PDict [(''APP_ID'', PStr ''1'')])])]) = Inr c"
    and "NAME_SPACE c = PNone" "MESSAGE c = PNone"
    using process_response_returns_config [OF nested_lookup [OF upper_keys],
        of "PDict [(''APP_ID'', PStr ''1'')]"]
    by auto
  moreover have "APP_ID c = PStr ''1''"
    using c process_response_steps [OF nested_lookup [OF upper_keys],
        of "PDict [(''APP_ID'', PStr ''1'')]"]
    by (auto simp: unexpected_kwargs_def kwarg_default_def AppConfig_init_def)
  ultimately show "GetCurrentAppConfig_process_response
       (PDict [(''ITEM'', PDict [(''VALUE'', PDict [(''APP_ID'', PStr ''1'')])])])
     = Inr \<lparr>APP_ID = PStr ''1'', NAME_SPACE = PNone, MESSAGE = PNone\<rparr>"
    by (cases c) simp
qed

section \<open>Equality of configs\<close>

text \<open>
  C8. Two \<^verbatim>\<open>AppConfig\<close> values compare equal exactly when their three fields are pairwise
  equal (by \<^verbatim>\<open>==\<close>), whether or not they are the same instance. When they are the same
  instance (\<open>self_is_other\<close>) they are the same value, made of Python values.
\<close>

theorem AppConfig_eq_structural:
  assumes "self_is_other \<longrightarrow>
             self = other \<and> wf_pyval (APP_ID self) \<and> wf_pyval (NAME_SPACE self) \<and>
             wf_pyval (MESSAGE self)"
  shows "AppConfig_eq self_is_other self other \<longleftrightarrow>
           py_eq (APP_ID self) (APP_ID other) \<and> py_eq (NAME_SPACE self) (NAME_SPACE other) \<and>
           py_eq (MESSAGE self) (MESSAGE other)"
proof (cases self_is_other)
  case True
  with assms have same: "other = self"
    and wf: "wf_pyval (APP_ID self)" "wf_pyval (NAME_SPACE self)" "wf_pyval (MESSAGE self)"
    by blast+
  show ?thesis
    unfolding same using True wf by (simp add: AppConfig_eq_fields py_eq_refl)
next
  case False
  then show ?thesis by (simp add: AppConfig_eq_fields)
qed

theorem AppConfig_eq_structural_witness:
  "AppConfig_eq False (AppConfig_init (PStr ''1'') (PInt 3) PNone)
     (AppConfig_init (PStr ''1'') (PInt 3) PNone)
   \<and> AppConfig_eq True (AppConfig_init (PStr ''1'') (PInt 3) PNone)
     (AppConfig_init (PStr ''1'') (PInt 3) PNone)
   \<and> \<not> AppConfig_eq False (AppConfig_init (PStr ''1'') (PInt 3) PNone)
     (AppConfig_init (PStr ''1'') (PInt 3) (PStr ''m''))"
  using AppConfig_eq_structural [of False "AppConfig_init (PStr ''1'') (PInt 3) PNone"
      "AppConfig_init (PStr ''1'') (PInt 3) PNone"]
    AppConfig_eq_structural [of True "AppConfig_init (PStr ''1'') (PInt 3) PNone"
      "AppConfig_init (PStr ''1'') (PInt 3) PNone"]
    AppConfig_eq_structural [of False "AppConfig_init (PStr ''1'') (PInt 3) PNone"
      "AppConfig_init (PStr ''1'') (PInt 3) (PStr ''m'')"]
  by (simp add: AppConfig_init_def)

section \<open>The current app's name\<close>




text \<open>
  C3. For every entry \<open>E\<close> of \<^verbatim>\<open>APP_HOME + APPS\<close>, the reverse lookup of a config that has
  the \<^verbatim>\<open>APP_ID\<close> and the \<^verbatim>\<open>NAME_SPACE\<close> of \<open>E\<close>, and any \<^verbatim>\<open>MESSAGE\<close>, returns the first
  entry of the table that shares that pair: the entry at the least index with the pair.
  The pair \<^verbatim>\<open>("21", 2)\<close> belongs to "Toon Goggles" and "Vudu", in this order in the
  table, and the lookup returns "Toon Goggles" for both.
\<close>

theorem reverse_lookup_first_entry:
  assumes "E \<in> set (APP_HOME @ APPS)"
    and "config_pair E = (Inr (APP_ID c), Inr (NAME_SPACE c))"
  shows "(\<exists>i<length (APP_HOME @ APPS).
            app_def_by_config (APP_HOME @ APPS) c = Inr (Some ((APP_HOME @ APPS) ! i)) \<and>
            config_pair ((APP_HOME @ APPS) ! i) = config_pair E \<and>
            (\<forall>j<i. config_pair ((APP_HOME @ APPS) ! j) \<noteq> config_pair E))
       \<and> (name E = ''Toon Goggles'' \<or> name E = ''Vudu'' \<longrightarrow>
            map_sum id (map_option name) (app_def_by_config (APP_HOME @ APPS) c)
              = Inr (Some ''Toon Goggles''))
       \<and> map name (filter (\<lambda>d. config_pair d = (Inr (PStr ''21''), Inr (PInt 2)))
            (APP_HOME @ APPS)) = [''Toon Goggles'', ''Vudu'']"
proof -
  let ?cat = "APP_HOME @ APPS"
  have typed: "\<And>F. F \<in> set ?cat \<Longrightarrow> typed_entry F"
    using catalog_typed by (simp add: list_all_iff)
  have eq: "find (\<lambda>d. config_matches d c) ?cat = find (\<lambda>d. config_pair d = config_pair E) ?cat"
    by (rule find_cong [OF refl])
       (simp add: typed_matches_pair [OF typed [OF assms(1)] typed assms(2)])
  have scan: "app_def_by_config ?cat c = Inr (find (\<lambda>d. config_pair d = config_pair E) ?cat)"
    using app_def_by_config_find [OF catalog_typed, of c] eq by simp
  from find_first_index [of E ?cat "\<lambda>d. config_pair d = config_pair E"] assms(1)
  have first: "\<exists>i<length ?cat.
      find (\<lambda>d. config_pair d = config_pair E) ?cat = Some (?cat ! i) \<and>
      config_pair (?cat ! i) = config_pair E \<and>
      (\<forall>j<i. config_pair (?cat ! j) \<noteq> config_pair E)"
    by simp
  have dup: "map_sum id (map_option name) (app_def_by_config ?cat c) = Inr (Some ''Toon Goggles'')"
    if "name E = ''Toon Goggles'' \<or> name E = ''Vudu''"
  proof -
    from that assms(1) have "config_pair E = (Inr (PStr ''21''), Inr (PInt 2))"
      using dup_pair by (auto simp: list_all_iff)
    with assms(2) have "APP_ID c = PStr ''21''" "NAME_SPACE c = PInt 2" by simp_all
    then obtain m where "c = \<lparr>APP_ID = PStr ''21'', NAME_SPACE = PInt 2, MESSAGE = m\<rparr>"
      by (cases c) simp
    then have "find (\<lambda>d. config_matches d c) ?cat = Some (?cat ! 18)"
      by (simp only: toon_goggles_first)
    moreover have "name (?cat ! 18) = ''Toon Goggles''"
      by (simp add: APP_HOME_def APPS_def)
    ultimately show ?thesis
      using app_def_by_config_find [OF catalog_typed, of c] by simp
  qed
  have "\<exists>i<length ?cat.
            app_def_by_config ?cat c = Inr (Some (?cat ! i)) \<and>
            config_pair (?cat ! i) = config_pair E \<and>
            (\<forall>j<i. config_pair (?cat ! j) \<noteq> config_pair E)"
    using first unfolding scan by simp
  then show ?thesis using dup pair_21_2_names by blast
qed

theorem reverse_lookup_first_entry_witness:
  "map_sum id (map_option name)
     (app_def_by_config (APP_HOME @ APPS)
        \<lparr>APP_ID = PStr ''21'', NAME_SPACE = PInt 2,
         MESSAGE = PStr ''https://my.vudu.com/castReceiver/index.html?launch-source=app-icon''\<rparr>)
   = Inr (Some ''Toon Goggles'')"
  using reverse_lookup_first_entry [of "(APP_HOME @ APPS) ! 19"
      "\<lparr>APP_ID = PStr ''21'', NAME_SPACE = PInt 2,
        MESSAGE = PStr ''https://my.vudu.com/castReceiver/index.html?launch-source=app-icon''\<rparr>"]
    vudu_entry
  by simp

text \<open>
  C10. The reverse match compares with \<^verbatim>\<open>==\<close>, which never equates a string and an
  integer: a parsed config whose \<^verbatim>\<open>NAME_SPACE\<close> is a string, the decimal form of an entry's
  integer or any other, matches no entry of the catalog, and the name is
  \<^verbatim>\<open>UNKNOWN_APP\<close>.
\<close>

theorem string_name_space_unknown:
  assumes "GetCurrentAppConfig_process_response json_obj = Inr c"
    and "NAME_SPACE c = PStr s"
  shows "GetCurrentAppName_process_response NO_APP_RUNNING UNKNOWN_APP json_obj = Inr UNKNOWN_APP
       \<and> find (\<lambda>d. config_matches d c) (APP_HOME @ APPS) = None
       \<and> \<not> py_eq (PInt n) (PStr s) \<and> \<not> py_eq (PStr s) (PInt n)"
proof -
  have "c \<noteq> default_AppConfig"
    using assms(2) by (auto simp: default_AppConfig_def AppConfig_init_def)
  moreover have "find (\<lambda>d. config_matches d c) (APP_HOME @ APPS) = None"
    using catalog_typed str_name_space_no_match [OF _ assms(2)]
    by (auto simp: find_None_iff list_all_iff)
  ultimately show ?thesis
    using name_response_find [OF assms(1)] by simp
qed

theorem string_name_space_unknown_witness:
  "GetCurrentAppName_process_response ''_NO_APP_RUNNING'' ''_UNKNOWN_APP''
     (PDict [(''ITEM'', PDict [(''VALUE'',
        PDict [(''APP_ID'', PStr ''1''), (''NAME_SPACE'', PStr ''3'')])])])
   = Inr ''_UNKNOWN_APP''
   \<and> \<not> py_eq (PInt 3) (PStr ''3'') \<and> \<not> py_eq (PStr ''3'') (PInt 3)"
  using string_name_space_unknown [OF string_name_space_config, of "''3''"
      "''_NO_APP_RUNNING''" "''_UNKNOWN_APP''" 3]
  by simp

end
